theory Spec2Isabelle
  imports Main
begin

section \<open>Python strings\<close>

text \<open>
  A Python \<^verbatim>\<open>str\<close> is modelled as a \<^typ>\<open>string\<close> whose characters are the code
  points below 256. On these, \<^verbatim>\<open>str.isspace\<close> holds for the code points 9 to 13,
  28 to 32, 133 and 160, and \<^verbatim>\<open>str.lower\<close> moves A to Z, and the capital letters
  192 to 214 and 216 to 222, up by 32 and leaves every other character as it is.
\<close>

definition isspace :: "char \<Rightarrow> bool" where
  "isspace c =
     (let n = (of_char c :: nat)
      in (9 \<le> n \<and> n \<le> 13) \<or> (28 \<le> n \<and> n \<le> 32) \<or> n = 133 \<or> n = 160)"

definition strip :: "string \<Rightarrow> string" where
  "strip s = rev (dropWhile isspace (rev (dropWhile isspace s)))"

definition lower_char :: "char \<Rightarrow> char" where
  "lower_char c =
     (let n = (of_char c :: nat)
      in if (65 \<le> n \<and> n \<le> 90) \<or> (192 \<le> n \<and> n \<le> 214) \<or> (216 \<le> n \<and> n \<le> 222)
         then char_of (n + 32) else c)"

definition lower :: "string \<Rightarrow> string" where
  "lower s = map lower_char s"

text \<open>\<^verbatim>\<open>sep.join(xs)\<close>.\<close>

fun join :: "string \<Rightarrow> string list \<Rightarrow> string" where
  "join sep [] = []"
| "join sep [x] = x"
| "join sep (x # y # ys) = x @ sep @ join sep (y # ys)"

section \<open>Data\<close>

text \<open>
  An email is a dictionary with the five keys that every entry of \<^verbatim>\<open>sample_emails\<close>
  carries, so it is a record and a key lookup cannot fail. The entries of the list are
  named after their ids. The fields \<^verbatim>\<open>id\<close> and
  \<^verbatim>\<open>from\<close> carry a prime, since both names are taken.
\<close>

record email =
  id' :: string
  from' :: string
  subject :: string
  body :: string
  timestamp :: string

definition email_001 :: email where
  "email_001 =
     \<lparr>id' = ''001'', from' = ''angry.customer@example.com'',
      subject = ''Broken product received'',
      body = ''I received my order #12345 yesterday but it arrived completely damaged. This is unacceptable and I demand a refund immediately. This is the worst customer service I'' @ [CHR 0x27] @ ''ve experienced.'',
      timestamp = ''2024-03-15T10:30:00Z''\<rparr>"

definition email_002 :: email where
  "email_002 =
     \<lparr>id' = ''002'', from' = ''curious.shopper@example.com'',
      subject = ''Question about product specifications'',
      body = ''Hi, I'' @ [CHR 0x27] @ ''m interested in buying your premium package but I couldn'' @ [CHR 0x27] @ ''t find information about whether it'' @ [CHR 0x27] @ ''s compatible with Mac OS. Could you please clarify this? Thanks!'',
      timestamp = ''2024-03-15T11:45:00Z''\<rparr>"

definition email_003 :: email where
  "email_003 =
     \<lparr>id' = ''003'', from' = ''happy.user@example.com'',
      subject = ''Amazing customer support'',
      body = ''I just wanted to say thank you for the excellent support I received from Sarah on your team. She went above and beyond to help resolve my issue. Keep up the great work!'',
      timestamp = ''2024-03-15T13:15:00Z''\<rparr>"

definition email_004 :: email where
  "email_004 =
     \<lparr>id' = ''004'', from' = ''tech.user@example.com'',
      subject = ''Need help with installation'',
      body = ''I'' @ [CHR 0x27] @ ''ve been trying to install the software for the past hour but keep getting error code 5123. I'' @ [CHR 0x27] @ ''ve already tried restarting my computer and clearing the cache. Please help!'',
      timestamp = ''2024-03-15T14:20:00Z''\<rparr>"

definition email_005 :: email where
  "email_005 =
     \<lparr>id' = ''005'', from' = ''business.client@example.com'',
      subject = ''Partnership opportunity'',
      body = ''Our company is interested in exploring potential partnership opportunities with your organization. Would it be possible to schedule a call next week to discuss this further?'',
      timestamp = ''2024-03-15T15:00:00Z''\<rparr>"

definition sample_emails :: "email list" where
  "sample_emails = [email_001, email_002, email_003, email_004, email_005]"

text \<open>
  A raised \<^verbatim>\<open>Exception\<close> carries the text that \<^verbatim>\<open>str(e)\<close> gives. Only
  \<^verbatim>\<open>Exception\<close> and its subclasses are modelled: they are what
  \<^verbatim>\<open>except Exception\<close> catches.
\<close>

datatype exn = Exception (str: string)

text \<open>
  A request to \<^verbatim>\<open>client.chat.completions.create\<close>: the model name and the messages,
  each a role and a content. A completion is the list of its choices, each given by its
  \<^verbatim>\<open>message.content\<close>, which the provider may leave \<^verbatim>\<open>None\<close>.
\<close>

record request =
  model :: string
  messages :: "(string \<times> string) list"

type_synonym completion = "string option list"

text \<open>
  The provider is a stub with a state of its own: given its state and a request it raises
  or returns a completion, and moves to a next state.
\<close>

type_synonym 's client = "'s \<Rightarrow> request \<Rightarrow> (exn + completion) \<times> 's"

text \<open>
  The values a field of the result dictionary takes: \<^verbatim>\<open>None\<close>, a \<^verbatim>\<open>bool\<close> or a
  \<^verbatim>\<open>str\<close>.
\<close>

datatype pyval = PyNone | PyBool bool | PyStr string

record ProcessingResult =
  email_id :: string
  success :: bool
  classification :: "string option"
  response_sent :: pyval

datatype level = INFO | ERROR

text \<open>The calls of the mock service functions, each with its arguments.\<close>

datatype mock_call =
    SendComplaintResponse string "string option"
  | SendStandardResponse string "string option"
  | CreateUrgentTicket string string "string option"
  | CreateSupportTicket string "string option"
  | LogCustomerFeedback string "string option"

text \<open>
  Everything the program acts on: the provider's state, the requests sent to it so far,
  the lines the logger has emitted and the mock service calls made, each in order.
\<close>

record 's world =
  provider :: 's
  requests :: "request list"
  logger :: "(level \<times> string) list"
  calls :: "mock_call list"

definition logger_info :: "string \<Rightarrow> 's world \<Rightarrow> 's world" where
  "logger_info msg w = w\<lparr>logger := logger w @ [(INFO, msg)]\<rparr>"

definition logger_error :: "string \<Rightarrow> 's world \<Rightarrow> 's world" where
  "logger_error msg w = w\<lparr>logger := logger w @ [(ERROR, msg)]\<rparr>"

section \<open>EmailProcessor\<close>

text \<open>
  \<^verbatim>\<open>valid_categories\<close> is a Python set. Its members are fixed; the order in which
  \<^verbatim>\<open>join\<close> iterates it is not, so the processor carries that order beside its client.
\<close>

record 's EmailProcessor =
  client :: "'s client"
  iteration_order :: "string list"

definition valid_categories :: "string set" where
  "valid_categories =
     {''complaint'', ''inquiry'', ''feedback'', ''support_request'', ''other''}"

definition model_name :: string where
  "model_name = ''gpt-4o''"

definition chat_completions_create ::
  "'s EmailProcessor \<Rightarrow> request \<Rightarrow> 's world \<Rightarrow> (exn + completion) \<times> 's world" where
  "chat_completions_create P rq w =
     (let (r, s) = client P (provider w) rq
      in (r, w\<lparr>provider := s, requests := requests w @ [rq]\<rparr>))"

text \<open>\<^verbatim>\<open>completion.choices[0].message.content\<close>; an empty list raises \<^verbatim>\<open>IndexError\<close>.\<close>

definition first_content :: "completion \<Rightarrow> exn + string option" where
  "first_content cs =
     (case cs of
        [] \<Rightarrow> Inl (Exception ''list index out of range'')
      | c # _ \<Rightarrow> Inr c)"

definition classify_prompt :: "'s EmailProcessor \<Rightarrow> email \<Rightarrow> string" where
  "classify_prompt P e =
     ''Please classify the following email as one of the following categories: ''
     @ join '', '' (iteration_order P)
     @ [CHR 0x0A] @ ''Subject: '' @ subject e @ [CHR 0x0A] @ ''Body: '' @ body e
     @ ''Return only the category or None if classification fails (JUST THE CATEGORY, NO QUOTES)''"

definition classify_request :: "'s EmailProcessor \<Rightarrow> email \<Rightarrow> request" where
  "classify_request P e =
     \<lparr>model = model_name, messages = [(''user'', classify_prompt P e)]\<rparr>"

text \<open>
  What the \<^verbatim>\<open>try\<close> block of \<^verbatim>\<open>classify_email\<close> does with the outcome of the call:
  a content of \<^verbatim>\<open>None\<close> has no \<^verbatim>\<open>strip\<close> and raises \<^verbatim>\<open>AttributeError\<close>.
\<close>

definition classify_try :: "exn + completion \<Rightarrow> exn + string option" where
  "classify_try r =
     (case r of
        Inl ex \<Rightarrow> Inl ex
      | Inr completion \<Rightarrow>
          (case first_content completion of
             Inl ex \<Rightarrow> Inl ex
           | Inr None \<Rightarrow>
               Inl (Exception ([CHR 0x27] @ ''NoneType'' @ [CHR 0x27]
                      @ '' object has no attribute '' @ [CHR 0x27] @ ''strip'' @ [CHR 0x27]))
           | Inr (Some content) \<Rightarrow>
               (let category_as_a_text = lower (strip content)
                in Inr (if category_as_a_text \<in> valid_categories
                        then Some category_as_a_text else None))))"

definition classify_email ::
  "'s EmailProcessor \<Rightarrow> email \<Rightarrow> 's world \<Rightarrow> string option \<times> 's world" where
  "classify_email P e w =
     (let (r, w1) = chat_completions_create P (classify_request P e) w
      in case classify_try r of
           Inr result \<Rightarrow> (result, w1)
         | Inl ex \<Rightarrow> (None, logger_error (''Error with the LLM provider: '' @ str ex) w1))"

definition response_prompt :: "email \<Rightarrow> string \<Rightarrow> string" where
  "response_prompt e c =
     ''Generate an automated response based on email classification''
     @ ''The category is '' @ c
     @ [CHR 0x0A] @ ''Subject: '' @ subject e @ [CHR 0x0A] @ ''Body: '' @ body e
     @ ''Return only the message (JUST THE MESSAGE, NO EXTRA TEXT)''"

definition response_request :: "email \<Rightarrow> string \<Rightarrow> request" where
  "response_request e c =
     \<lparr>model = model_name, messages = [(''user'', response_prompt e c)]\<rparr>"

definition response_try :: "exn + completion \<Rightarrow> exn + string option" where
  "response_try r =
     (case r of
        Inl ex \<Rightarrow> Inl ex
      | Inr completion \<Rightarrow> first_content completion)"

definition generate_response ::
  "'s EmailProcessor \<Rightarrow> email \<Rightarrow> string \<Rightarrow> 's world \<Rightarrow> string option \<times> 's world" where
  "generate_response P e c w =
     (let (r, w1) = chat_completions_create P (response_request e c) w
      in case response_try r of
           Inr result \<Rightarrow> (result, w1)
         | Inl ex \<Rightarrow> (None, logger_error (''Error with the LLM provider: '' @ str ex) w1))"

section \<open>Mock service functions\<close>

definition send_complaint_response :: "string \<Rightarrow> string option \<Rightarrow> 's world \<Rightarrow> 's world" where
  "send_complaint_response i response w =
     logger_info (''Sending complaint response for email '' @ i)
       (w\<lparr>calls := calls w @ [SendComplaintResponse i response]\<rparr>)"

definition send_standard_response :: "string \<Rightarrow> string option \<Rightarrow> 's world \<Rightarrow> 's world" where
  "send_standard_response i response w =
     logger_info (''Sending standard response for email '' @ i)
       (w\<lparr>calls := calls w @ [SendStandardResponse i response]\<rparr>)"

definition create_urgent_ticket ::
  "string \<Rightarrow> string \<Rightarrow> string option \<Rightarrow> 's world \<Rightarrow> 's world" where
  "create_urgent_ticket i category context w =
     logger_info (''Creating urgent ticket for email '' @ i)
       (w\<lparr>calls := calls w @ [CreateUrgentTicket i category context]\<rparr>)"

definition create_support_ticket :: "string \<Rightarrow> string option \<Rightarrow> 's world \<Rightarrow> 's world" where
  "create_support_ticket i context w =
     logger_info (''Creating support ticket for email '' @ i)
       (w\<lparr>calls := calls w @ [CreateSupportTicket i context]\<rparr>)"

definition log_customer_feedback :: "string \<Rightarrow> string option \<Rightarrow> 's world \<Rightarrow> 's world" where
  "log_customer_feedback i feedback w =
     logger_info (''Logging feedback for email '' @ i)
       (w\<lparr>calls := calls w @ [LogCustomerFeedback i feedback]\<rparr>)"

section \<open>EmailAutomationSystem\<close>

definition handle_complaint ::
  "'s EmailProcessor \<Rightarrow> email \<Rightarrow> 's world \<Rightarrow> string option \<times> 's world" where
  "handle_complaint P e w =
     (let (response, w1) = generate_response P e ''complaint'' w
      in (response, send_complaint_response (id' e) response w1))"

definition handle_inquiry ::
  "'s EmailProcessor \<Rightarrow> email \<Rightarrow> 's world \<Rightarrow> string option \<times> 's world" where
  "handle_inquiry P e w =
     (let (response, w1) = generate_response P e ''inquiry'' w
      in (response, send_standard_response (id' e) response w1))"

definition handle_feedback ::
  "'s EmailProcessor \<Rightarrow> email \<Rightarrow> 's world \<Rightarrow> string option \<times> 's world" where
  "handle_feedback P e w =
     (let (response, w1) = generate_response P e ''feedback'' w
      in (response, log_customer_feedback (id' e) response w1))"

definition handle_support_request ::
  "'s EmailProcessor \<Rightarrow> email \<Rightarrow> 's world \<Rightarrow> string option \<times> 's world" where
  "handle_support_request P e w =
     (let (response, w1) = generate_response P e ''support_request'' w
      in (response, create_support_ticket (id' e) response w1))"

definition handle_other ::
  "'s EmailProcessor \<Rightarrow> email \<Rightarrow> 's world \<Rightarrow> string option \<times> 's world" where
  "handle_other P e w =
     (let (response, w1) = generate_response P e ''other'' w
      in (response, send_standard_response (id' e) response w1))"

text \<open>
  The values of the dictionary \<^verbatim>\<open>response_handlers\<close> are the five bound methods. They
  are kept apart by name, and \<open>call_handler\<close> applies one.
\<close>

datatype handler =
  Handle_complaint | Handle_inquiry | Handle_feedback | Handle_support_request | Handle_other

fun call_handler ::
  "handler \<Rightarrow> 's EmailProcessor \<Rightarrow> email \<Rightarrow> 's world \<Rightarrow> string option \<times> 's world" where
  "call_handler Handle_complaint = handle_complaint"
| "call_handler Handle_inquiry = handle_inquiry"
| "call_handler Handle_feedback = handle_feedback"
| "call_handler Handle_support_request = handle_support_request"
| "call_handler Handle_other = handle_other"

definition response_handlers :: "string \<rightharpoonup> handler" where
  "response_handlers =
     [''complaint'' \<mapsto> Handle_complaint,
      ''inquiry'' \<mapsto> Handle_inquiry,
      ''feedback'' \<mapsto> Handle_feedback,
      ''support_request'' \<mapsto> Handle_support_request,
      ''other'' \<mapsto> Handle_other]"

text \<open>\<^verbatim>\<open>self.response_handlers.get(classification, self._handle_other)\<close>.\<close>

definition get_handler :: "string \<Rightarrow> handler" where
  "get_handler c = (case response_handlers c of Some h \<Rightarrow> h | None \<Rightarrow> Handle_other)"

text \<open>
  \<^verbatim>\<open>if not classification\<close> takes the failure branch on \<^verbatim>\<open>None\<close> and on the empty
  string. The handler's return value, \<^verbatim>\<open>None\<close> or a string, is stored as it is.
\<close>

definition to_pyval :: "string option \<Rightarrow> pyval" where
  "to_pyval r = (case r of None \<Rightarrow> PyNone | Some s \<Rightarrow> PyStr s)"

definition failure_result :: "email \<Rightarrow> ProcessingResult" where
  "failure_result e =
     \<lparr>email_id = id' e, success = False, classification = None,
      response_sent = PyBool False\<rparr>"

definition process_email ::
  "'s EmailProcessor \<Rightarrow> email \<Rightarrow> 's world \<Rightarrow> ProcessingResult \<times> 's world" where
  "process_email P e w =
     (let (cl, w1) = classify_email P e w
      in case cl of
           None \<Rightarrow> (failure_result e, w1)
         | Some c \<Rightarrow>
             if c = [] then (failure_result e, w1)
             else
               (let handler = get_handler c;
                    (response, w2) = call_handler handler P e w1
                in (\<lparr>email_id = id' e, success = True, classification = Some c,
                     response_sent = to_pyval response\<rparr>, w2)))"

section \<open>The demonstration\<close>

text \<open>
  The loop of \<^verbatim>\<open>run_demonstration\<close>, over any list of emails, and the demonstration
  itself, whose data frame is the list of results in order.
\<close>

fun process_emails ::
  "'s EmailProcessor \<Rightarrow> email list \<Rightarrow> 's world \<Rightarrow> ProcessingResult list \<times> 's world" where
  "process_emails P [] w = ([], w)"
| "process_emails P (e # es) w =
     (let w1 = logger_info ([CHR 0x0A] @ ''Processing email '' @ id' e @ ''...'') w;
          (result, w2) = process_email P e w1;
          (results, w3) = process_emails P es w2
      in (result # results, w3))"

definition run_demonstration ::
  "'s EmailProcessor \<Rightarrow> 's world \<Rightarrow> ProcessingResult list \<times> 's world" where
  "run_demonstration P w = process_emails P sample_emails w"

section \<open>The specification's table and invariant\<close>

text \<open>
  The table of the dispatcher, as the specification gives it: the one mock action that
  belongs to a category, applied to an email id and a payload. A string that is no
  category has none.
\<close>

definition spec_action :: "string \<Rightarrow> string \<Rightarrow> string option \<Rightarrow> mock_call option" where
  "spec_action c i payload =
     (if c = ''complaint'' then Some (SendComplaintResponse i payload)
      else if c = ''inquiry'' then Some (SendStandardResponse i payload)
      else if c = ''feedback'' then Some (LogCustomerFeedback i payload)
      else if c = ''support_request'' then Some (CreateSupportTicket i payload)
      else if c = ''other'' then Some (SendStandardResponse i payload)
      else None)"

text \<open>
  The invariant of a processing result in the specification's words, where absent is
  \<^verbatim>\<open>None\<close>.
\<close>

definition spec_invariant :: "ProcessingResult \<Rightarrow> bool" where
  "spec_invariant r \<longleftrightarrow>
     (success r \<longleftrightarrow> classification r \<noteq> None) \<and> (response_sent r \<noteq> PyNone \<longrightarrow> success r)"

fun is_str :: "pyval \<Rightarrow> bool" where
  "is_str (PyStr s) = True"
| "is_str v = False"

text \<open>
  The invariant the results have: a failure carries the boolean \<^verbatim>\<open>False\<close> in
  \<^verbatim>\<open>response_sent\<close>, and only a success carries a string.
\<close>

definition result_invariant :: "ProcessingResult \<Rightarrow> bool" where
  "result_invariant r \<longleftrightarrow>
     (success r \<longleftrightarrow> classification r \<noteq> None)
     \<and> (is_str (response_sent r) \<longrightarrow> success r)
     \<and> (\<not> success r \<longrightarrow> response_sent r = PyBool False)"

fun is_create_urgent_ticket :: "mock_call \<Rightarrow> bool" where
  "is_create_urgent_ticket (CreateUrgentTicket i c x) = True"
| "is_create_urgent_ticket other = False"

text \<open>
  A stub is stateless when what it answers depends on the request alone, whatever state it
  is in.
\<close>

definition stateless :: "'s EmailProcessor \<Rightarrow> bool" where
  "stateless P \<longleftrightarrow> (\<forall>s s' rq. fst (client P s rq) = fst (client P s' rq))"

section \<open>Stubs for the provider\<close>

text \<open>
  A scripted stub answers with the next outcome of a list, whatever the request, and raises
  once the list is used up. A keyword stub answers by the first words of the prompt and
  counts its calls.
\<close>

definition scripted :: "(exn + completion) list client" where
  "scripted s rq =
     (case s of
        [] \<Rightarrow> (Inl (Exception ''no scripted response left''), [])
      | r # rs \<Rightarrow> (r, rs))"

definition scripted_processor :: "(exn + completion) list EmailProcessor" where
  "scripted_processor =
     \<lparr>client = scripted,
      iteration_order = [''complaint'', ''inquiry'', ''feedback'', ''support_request'', ''other'']\<rparr>"

definition keyword_stub :: "nat client" where
  "keyword_stub n rq =
     (case messages rq of
        [] \<Rightarrow> (Inl (Exception ''no message''), Suc n)
      | (role, content) # _ \<Rightarrow>
          (if take 15 content = ''Please classify'' then Inr [Some ''Inquiry'']
           else Inr [Some ''Thank you for your message.''], Suc n))"

definition keyword_processor :: "nat EmailProcessor" where
  "keyword_processor =
     \<lparr>client = keyword_stub,
      iteration_order = [''other'', ''feedback'', ''complaint'', ''inquiry'', ''support_request'']\<rparr>"

definition start :: "'s \<Rightarrow> 's world" where
  "start s = \<lparr>provider = s, requests = [], logger = [], calls = []\<rparr>"

section \<open>Lemmas\<close>

lemmas pipeline_defs =
  process_email_def failure_result_def classify_email_def generate_response_def
  chat_completions_create_def classify_request_def response_request_def
  classify_try_def response_try_def first_content_def to_pyval_def
  logger_error_def logger_info_def
  handle_complaint_def handle_inquiry_def handle_feedback_def handle_support_request_def
  handle_other_def send_complaint_response_def send_standard_response_def
  create_support_ticket_def log_customer_feedback_def
  get_handler_def response_handlers_def model_name_def

lemmas string_defs = lower_def lower_char_def strip_def isspace_def valid_categories_def

lemmas stub_defs = scripted_processor_def scripted_def start_def

subsection \<open>The provider call\<close>

lemma create_fst: "fst (chat_completions_create P rq w) = fst (client P (provider w) rq)"
  by (simp add: chat_completions_create_def split: prod.splits)

lemma create_snd:
  "snd (chat_completions_create P rq w) =
     w\<lparr>provider := snd (client P (provider w) rq), requests := requests w @ [rq]\<rparr>"
  by (simp add: chat_completions_create_def split: prod.splits)

lemma classify_email_fst:
  "fst (classify_email P e w) =
     (case classify_try (fst (client P (provider w) (classify_request P e))) of
        Inl ex \<Rightarrow> None | Inr r \<Rightarrow> r)"
  by (simp add: classify_email_def chat_completions_create_def split: prod.splits sum.splits)

lemma classify_email_calls: "calls (snd (classify_email P e w)) = calls w"
  by (simp add: classify_email_def chat_completions_create_def logger_error_def
      split: prod.splits sum.splits)

lemma classify_email_requests:
  "requests (snd (classify_email P e w)) = requests w @ [classify_request P e]"
  by (simp add: classify_email_def chat_completions_create_def logger_error_def
      split: prod.splits sum.splits)

lemma valid_categories_iff:
  "c \<in> valid_categories \<longleftrightarrow>
     c = ''complaint'' \<or> c = ''inquiry'' \<or> c = ''feedback'' \<or> c = ''support_request''
     \<or> c = ''other''"
  by (simp add: valid_categories_def)

lemma classify_try_valid: "classify_try r = Inr (Some c) \<Longrightarrow> c \<in> valid_categories"
  by (auto simp: classify_try_def first_content_def Let_def
      split: sum.splits list.splits option.splits if_splits)

lemma classify_email_valid:
  assumes "fst (classify_email P e w) = Some c"
  shows "c \<in> valid_categories"
proof -
  have "classify_try (fst (client P (provider w) (classify_request P e))) = Inr (Some c)"
    using assms by (simp add: classify_email_fst split: sum.splits)
  then show ?thesis by (rule classify_try_valid)
qed

lemma generate_response_fst:
  "fst (generate_response P e c w) =
     (case response_try (fst (client P (provider w) (response_request e c))) of
        Inl ex \<Rightarrow> None | Inr r \<Rightarrow> r)"
  by (simp add: generate_response_def chat_completions_create_def split: prod.splits sum.splits)

lemma generate_response_calls: "calls (snd (generate_response P e c w)) = calls w"
  by (simp add: generate_response_def chat_completions_create_def logger_error_def
      split: prod.splits sum.splits)

lemma generate_response_requests:
  "requests (snd (generate_response P e c w)) = requests w @ [response_request e c]"
  by (simp add: generate_response_def chat_completions_create_def logger_error_def
      split: prod.splits sum.splits)

subsection \<open>Handlers\<close>

lemma handler_fst:
  "fst (handle_complaint P e w) = fst (generate_response P e ''complaint'' w)"
  "fst (handle_inquiry P e w) = fst (generate_response P e ''inquiry'' w)"
  "fst (handle_feedback P e w) = fst (generate_response P e ''feedback'' w)"
  "fst (handle_support_request P e w) = fst (generate_response P e ''support_request'' w)"
  "fst (handle_other P e w) = fst (generate_response P e ''other'' w)"
  by (simp_all add: handle_complaint_def handle_inquiry_def handle_feedback_def
      handle_support_request_def handle_other_def split_beta)

lemma get_handler_valid:
  "get_handler ''complaint'' = Handle_complaint"
  "get_handler ''inquiry'' = Handle_inquiry"
  "get_handler ''feedback'' = Handle_feedback"
  "get_handler ''support_request'' = Handle_support_request"
  "get_handler ''other'' = Handle_other"
  by (simp_all add: get_handler_def response_handlers_def)

lemma dispatch_fst:
  assumes "c \<in> valid_categories"
  shows "fst (call_handler (get_handler c) P e w) = fst (generate_response P e c w)"
  using assms unfolding valid_categories_iff
  by (elim disjE) (simp_all add: get_handler_valid handler_fst)

lemma handler_calls:
  "calls (snd (handle_complaint P e w)) = calls w @ [SendComplaintResponse (id' e) (fst (generate_response P e ''complaint'' w))]"
  "calls (snd (handle_inquiry P e w)) = calls w @ [SendStandardResponse (id' e) (fst (generate_response P e ''inquiry'' w))]"
  "calls (snd (handle_feedback P e w)) = calls w @ [LogCustomerFeedback (id' e) (fst (generate_response P e ''feedback'' w))]"
  "calls (snd (handle_support_request P e w)) = calls w @ [CreateSupportTicket (id' e) (fst (generate_response P e ''support_request'' w))]"
  "calls (snd (handle_other P e w)) = calls w @ [SendStandardResponse (id' e) (fst (generate_response P e ''other'' w))]"
  by (simp_all add: handle_complaint_def handle_inquiry_def handle_feedback_def
      handle_support_request_def handle_other_def
      send_complaint_response_def send_standard_response_def create_support_ticket_def
      log_customer_feedback_def logger_info_def split_beta generate_response_calls)

lemma spec_action_valid:
  "spec_action ''complaint'' i p = Some (SendComplaintResponse i p)"
  "spec_action ''inquiry'' i p = Some (SendStandardResponse i p)"
  "spec_action ''feedback'' i p = Some (LogCustomerFeedback i p)"
  "spec_action ''support_request'' i p = Some (CreateSupportTicket i p)"
  "spec_action ''other'' i p = Some (SendStandardResponse i p)"
  by (simp_all add: spec_action_def)

lemma dispatch_calls:
  assumes "c \<in> valid_categories"
  shows "map Some (calls (snd (call_handler (get_handler c) P e w))) =
     map Some (calls w) @ [spec_action c (id' e) (fst (generate_response P e c w))]"
  using assms unfolding valid_categories_iff
  by (elim disjE) (simp_all add: get_handler_valid handler_calls spec_action_valid)

lemma process_email_failure:
  assumes "fst (classify_email P e w) = None"
  shows "process_email P e w =
     (\<lparr>email_id = id' e, success = False, classification = None,
       response_sent = PyBool False\<rparr>, snd (classify_email P e w))"
  using assms by (cases "classify_email P e w") (simp add: process_email_def failure_result_def)

lemma valid_nonempty: "c \<in> valid_categories \<Longrightarrow> c \<noteq> []"
  unfolding valid_categories_iff by (elim disjE) simp_all

lemma process_email_success:
  assumes "classify_email P e w = (Some c, w1)"
  shows "process_email P e w =
     (\<lparr>email_id = id' e, success = True, classification = Some c,
       response_sent = to_pyval (fst (generate_response P e c w1))\<rparr>,
      snd (call_handler (get_handler c) P e w1))"
proof -
  have v: "c \<in> valid_categories"
    using assms classify_email_valid[of P e w c] by simp
  then have "c \<noteq> []" by (rule valid_nonempty)
  then show ?thesis
    using assms dispatch_fst[OF v, of P e w1]
    by (cases "call_handler (get_handler c) P e w1") (simp add: process_email_def)
qed




lemma process_email_cases:
  "process_email P e w =
     (case fst (classify_email P e w) of
        None \<Rightarrow>
          (\<lparr>email_id = id' e, success = False, classification = None,
            response_sent = PyBool False\<rparr>, snd (classify_email P e w))
      | Some c \<Rightarrow>
          (\<lparr>email_id = id' e, success = True, classification = Some c,
            response_sent = to_pyval (fst (generate_response P e c (snd (classify_email P e w))))\<rparr>,
           snd (call_handler (get_handler c) P e (snd (classify_email P e w)))))"
proof (cases "fst (classify_email P e w)")
  case None
  then show ?thesis by (simp add: process_email_failure)
next
  case (Some c)
  then have "classify_email P e w = (Some c, snd (classify_email P e w))"
    by (simp add: prod_eq_iff)
  then show ?thesis using Some by (simp add: process_email_success)
qed

lemma process_email_calls_failure:
  assumes "fst (classify_email P e w) = None"
  shows "calls (snd (process_email P e w)) = calls w"
  using assms by (simp add: process_email_cases classify_email_calls)

lemma process_email_calls_success:
  assumes "fst (classify_email P e w) = Some c"
  shows "map Some (calls (snd (process_email P e w))) =
     map Some (calls w)
     @ [spec_action c (id' e) (fst (generate_response P e c (snd (classify_email P e w))))]"
  using assms classify_email_valid[OF assms]
  by (simp add: process_email_cases dispatch_calls classify_email_calls)

subsection \<open>Urgent tickets\<close>

lemma call_handler_urgent:
  "filter is_create_urgent_ticket (calls (snd (call_handler h P e w))) =
     filter is_create_urgent_ticket (calls w)"
  by (cases h) (simp_all add: handler_calls)

lemma process_email_urgent:
  "filter is_create_urgent_ticket (calls (snd (process_email P e w))) =
     filter is_create_urgent_ticket (calls w)"
  by (simp add: process_email_cases call_handler_urgent classify_email_calls split: option.splits)

lemma process_emails_urgent:
  "filter is_create_urgent_ticket (calls (snd (process_emails P es w))) =
     filter is_create_urgent_ticket (calls w)"
proof (induction es arbitrary: w)
  case Nil
  show ?case by simp
next
  case (Cons e es)
  have "calls (logger_info m w) = calls w" for m
    by (simp add: logger_info_def)
  then show ?case
    by (simp add: split_beta Let_def Cons.IH process_email_urgent)
qed

subsection \<open>Stubs whose answer depends on the request alone\<close>

lemma stateless_classify:
  assumes "stateless P"
  shows "fst (classify_email P e w) = fst (classify_email P e w')"
proof -
  have "fst (client P (provider w) rq) = fst (client P (provider w') rq)" for rq
    using assms unfolding stateless_def by blast
  then show ?thesis by (simp add: classify_email_fst)
qed

lemma stateless_generate:
  assumes "stateless P"
  shows "fst (generate_response P e c w) = fst (generate_response P e c w')"
proof -
  have "fst (client P (provider w) rq) = fst (client P (provider w') rq)" for rq
    using assms unfolding stateless_def by blast
  then show ?thesis by (simp add: generate_response_fst)
qed

lemma stateless_process_email:
  assumes "stateless P"
  shows "fst (process_email P e w) = fst (process_email P e w')"
  using stateless_classify[OF assms, of e w w']
    stateless_generate[OF assms, of e _ "snd (classify_email P e w)" "snd (classify_email P e w')"]
  by (simp add: process_email_cases split: option.splits)

subsection \<open>Runs that start with the provider in the same state\<close>

lemma classify_email_provider:
  "provider (snd (classify_email P e w)) = snd (client P (provider w) (classify_request P e))"
  by (simp add: classify_email_def chat_completions_create_def logger_error_def split_beta
      split: sum.splits)

lemma generate_response_provider:
  "provider (snd (generate_response P e c w)) = snd (client P (provider w) (response_request e c))"
  by (simp add: generate_response_def chat_completions_create_def logger_error_def split_beta
      split: sum.splits)

lemma call_handler_provider:
  assumes "provider w = provider w'"
  shows "provider (snd (call_handler h P e w)) = provider (snd (call_handler h P e w'))"
  using assms
  by (cases h)
    (simp_all add: handle_complaint_def handle_inquiry_def handle_feedback_def
      handle_support_request_def handle_other_def
      send_complaint_response_def send_standard_response_def create_support_ticket_def
      log_customer_feedback_def logger_info_def split_beta generate_response_provider)

lemma same_provider_process_email:
  assumes "provider w = provider w'"
  shows "fst (process_email P e w) = fst (process_email P e w')
     \<and> provider (snd (process_email P e w)) = provider (snd (process_email P e w'))"
proof -
  have c: "fst (classify_email P e w) = fst (classify_email P e w')"
    using assms by (simp add: classify_email_fst)
  have p: "provider (snd (classify_email P e w)) = provider (snd (classify_email P e w'))"
    using assms by (simp add: classify_email_provider)
  have h: "provider (snd (call_handler k P e (snd (classify_email P e w)))) =
      provider (snd (call_handler k P e (snd (classify_email P e w'))))" for k
    using p by (rule call_handler_provider)
  show ?thesis
    using c p h
    by (simp add: process_email_cases generate_response_fst split: option.splits)
qed

lemma process_emails_Cons_fst:
  "fst (process_emails P (x # xs) u) =
     fst (process_email P x
            (logger_info ([CHR 0x0A] @ ''Processing email '' @ id' x @ ''...'') u))
     # fst (process_emails P xs
              (snd (process_email P x
                      (logger_info ([CHR 0x0A] @ ''Processing email '' @ id' x @ ''...'') u))))"
  by (simp add: split_beta Let_def)

subsection \<open>The outcomes of the two calls\<close>

lemma classify_try_raised: "classify_try (Inl ex) = Inl ex"
  by (simp add: classify_try_def)

lemma classify_try_text:
  "classify_try (Inr (Some t # rest)) =
     Inr (if lower (strip t) \<in> valid_categories then Some (lower (strip t)) else None)"
  by (simp add: classify_try_def first_content_def)

lemma response_try_raised: "response_try (Inl ex) = Inl ex"
  by (simp add: response_try_def)

lemma keyword_inquiry: "lower (strip ''Inquiry'') = ''inquiry''"
  by (simp add: lower_def lower_char_def strip_def isspace_def char_of_eq_iff)

section \<open>Claims\<close>

text \<open>
  C1, as stated, at the second sample email with a provider that answers \<^verbatim>\<open>spam\<close>:
  the classification call returns a text that is no category, and the result is not the
  record whose \<^verbatim>\<open>response_sent\<close> is absent.
\<close>

theorem classification_failure_response_sent_counterexample:
  "fst (client scripted_processor (provider (start [Inr [Some ''spam'']]))
          (classify_request scripted_processor email_002))
     = Inr [Some ''spam'']
   \<and> lower (strip ''spam'') \<notin> valid_categories
   \<and> fst (process_email scripted_processor email_002 (start [Inr [Some ''spam'']]))
     \<noteq> \<lparr>email_id = id' email_002, success = False, classification = None,
         response_sent = PyNone\<rparr>"
  by (simp add: pipeline_defs string_defs stub_defs email_001_def email_002_def email_003_def)

text \<open>
  C1, amended: for every email whose classification call raises an error, or returns a text
  that after trimming and lowercasing is not in the valid category set, \<^verbatim>\<open>process_email\<close>
  returns exactly the record with the email's id, \<^verbatim>\<open>success\<close> false, \<^verbatim>\<open>classification\<close>
  absent and \<^verbatim>\<open>response_sent\<close> the boolean \<^verbatim>\<open>False\<close>. No handler runs for that email:
  no mock service function is called, and the classification request is the only request
  sent to the provider.
\<close>

theorem classification_failure_result:
  assumes "(\<exists>ex. fst (client P (provider w) (classify_request P e)) = Inl ex)
     \<or> (\<exists>t rest. fst (client P (provider w) (classify_request P e)) = Inr (Some t # rest)
           \<and> lower (strip t) \<notin> valid_categories)"
  shows "fst (process_email P e w) =
       \<lparr>email_id = id' e, success = False, classification = None,
        response_sent = PyBool False\<rparr>
     \<and> calls (snd (process_email P e w)) = calls w
     \<and> requests (snd (process_email P e w)) = requests w @ [classify_request P e]"
proof -
  have none: "fst (classify_email P e w) = None"
    using assms
    by (auto simp: classify_email_fst classify_try_raised classify_try_text)
  then show ?thesis
    by (simp add: process_email_failure classify_email_calls classify_email_requests)
qed

text \<open>
  The amended C1 at the second sample email with a provider that answers \<^verbatim>\<open>spam\<close>.
\<close>

theorem classification_failure_result_witness:
  "((\<exists>ex. fst (client scripted_processor (provider (start [Inr [Some ''spam'']]))
              (classify_request scripted_processor email_002)) = Inl ex)
    \<or> (\<exists>t rest. fst (client scripted_processor (provider (start [Inr [Some ''spam'']]))
              (classify_request scripted_processor email_002)) = Inr (Some t # rest)
           \<and> lower (strip t) \<notin> valid_categories))
   \<and> fst (process_email scripted_processor email_002 (start [Inr [Some ''spam'']])) =
       \<lparr>email_id = ''002'', success = False, classification = None,
        response_sent = PyBool False\<rparr>
   \<and> calls (snd (process_email scripted_processor email_002
         (start [Inr [Some ''spam'']]))) = []"
proof -
  have h: "(\<exists>ex. fst (client scripted_processor (provider (start [Inr [Some ''spam'']]))
              (classify_request scripted_processor email_002)) = Inl ex)
    \<or> (\<exists>t rest. fst (client scripted_processor (provider (start [Inr [Some ''spam'']]))
              (classify_request scripted_processor email_002)) = Inr (Some t # rest)
           \<and> lower (strip t) \<notin> valid_categories)"
    by (simp add: stub_defs string_defs)
  have i: "id' email_002 = ''002''"
    by (simp add: email_001_def email_002_def email_003_def)
  have c: "calls (start [Inr [Some ''spam'']] :: (exn + completion) list world) = []"
    by (simp add: start_def)
  show ?thesis
    using h classification_failure_result[OF h] by (simp add: i c)
qed

text \<open>
  C2, as stated, at the first sample email with a provider that raises: the result has
  \<^verbatim>\<open>success\<close> false and a \<^verbatim>\<open>response_sent\<close> that is not absent.
\<close>

theorem spec_invariant_counterexample:
  "\<not> spec_invariant
       (fst (process_email scripted_processor email_001
               (start [Inl (Exception ''connection refused'')])))"
  by (simp add: spec_invariant_def pipeline_defs string_defs stub_defs email_001_def email_002_def email_003_def)

text \<open>
  C2, amended: every result of \<^verbatim>\<open>process_email\<close> has \<^verbatim>\<open>success\<close> true if and only if
  its classification is present; its \<^verbatim>\<open>response_sent\<close> is a string only when \<^verbatim>\<open>success\<close>
  is true, and is the boolean \<^verbatim>\<open>False\<close> when \<^verbatim>\<open>success\<close> is false.
\<close>

theorem process_email_result_invariant:
  "result_invariant (fst (process_email P e w))"
  by (simp add: result_invariant_def process_email_cases to_pyval_def split: option.splits)

text \<open>
  The amended C2 at the first sample email, classified as a complaint and answered with a
  text.
\<close>

theorem process_email_result_invariant_witness:
  "response_sent (fst (process_email scripted_processor email_001
       (start [Inr [Some ''complaint''], Inr [Some ''We apologise.'']]))) = PyStr ''We apologise.''
   \<and> success (fst (process_email scripted_processor email_001
       (start [Inr [Some ''complaint''], Inr [Some ''We apologise.'']])))
   \<and> result_invariant (fst (process_email scripted_processor email_001
       (start [Inr [Some ''complaint''], Inr [Some ''We apologise.'']])))"
proof -
  have r: "response_sent (fst (process_email scripted_processor email_001
       (start [Inr [Some ''complaint''], Inr [Some ''We apologise.'']]))) = PyStr ''We apologise.''"
    by (simp add: pipeline_defs string_defs stub_defs email_001_def email_002_def email_003_def)
  show ?thesis
    using r process_email_result_invariant[of scripted_processor email_001
        "start [Inr [Some ''complaint''], Inr [Some ''We apologise.'']]"]
    by (auto simp: result_invariant_def)
qed

text \<open>
  C3: for every email whose classification succeeds with a category and whose
  response-generation call raises an error, \<^verbatim>\<open>process_email\<close> still returns
  \<^verbatim>\<open>success\<close> true with the obtained classification and \<^verbatim>\<open>response_sent\<close> absent, and
  the mock action that the specification's table gives for the category is called exactly
  once, with the email's id and the absent payload.
\<close>

theorem responder_failure_keeps_success:
  assumes "fst (classify_email P e w) = Some c"
    and "fst (client P (provider (snd (classify_email P e w))) (response_request e c)) = Inl ex"
  shows "fst (process_email P e w) =
       \<lparr>email_id = id' e, success = True, classification = Some c, response_sent = PyNone\<rparr>
     \<and> (\<exists>a. spec_action c (id' e) None = Some a
            \<and> calls (snd (process_email P e w)) = calls w @ [a])"
proof -
  have none: "fst (generate_response P e c (snd (classify_email P e w))) = None"
    using assms(2) by (simp add: generate_response_fst response_try_raised)
  have "map Some (calls (snd (process_email P e w))) =
      map Some (calls w) @ [spec_action c (id' e) None]"
    using process_email_calls_success[OF assms(1)] none by simp
  then have "\<exists>a. spec_action c (id' e) None = Some a
      \<and> calls (snd (process_email P e w)) = calls w @ [a]"
    by (cases "spec_action c (id' e) None") (auto simp: map_eq_append_conv)
  moreover have "fst (process_email P e w) =
       \<lparr>email_id = id' e, success = True, classification = Some c, response_sent = PyNone\<rparr>"
    using assms(1) none by (simp add: process_email_cases to_pyval_def)
  ultimately show ?thesis by simp
qed

text \<open>
  C3 at the third sample email: the classifier answers \<^verbatim>\<open>feedback\<close>, the responder
  raises, and the one call is \<^verbatim>\<open>log_customer_feedback\<close> with an absent payload.
\<close>

theorem responder_failure_keeps_success_witness:
  "fst (classify_email scripted_processor email_003
          (start [Inr [Some ''feedback''], Inl (Exception ''boom'')])) = Some ''feedback''
   \<and> fst (client scripted_processor
            (provider (snd (classify_email scripted_processor email_003
               (start [Inr [Some ''feedback''], Inl (Exception ''boom'')]))))
            (response_request email_003 ''feedback'')) = Inl (Exception ''boom'')
   \<and> fst (process_email scripted_processor email_003
            (start [Inr [Some ''feedback''], Inl (Exception ''boom'')])) =
       \<lparr>email_id = ''003'', success = True, classification = Some ''feedback'',
        response_sent = PyNone\<rparr>
   \<and> calls (snd (process_email scripted_processor email_003
            (start [Inr [Some ''feedback''], Inl (Exception ''boom'')]))) =
       [LogCustomerFeedback ''003'' None]"
proof -
  define w where "w = start [Inr [Some ''feedback''], Inl (Exception ''boom'') :: exn + completion]"
  have h1: "fst (classify_email scripted_processor email_003 w) = Some ''feedback''"
    by (simp add: w_def pipeline_defs string_defs stub_defs)
  have h2: "fst (client scripted_processor
            (provider (snd (classify_email scripted_processor email_003 w)))
            (response_request email_003 ''feedback'')) = Inl (Exception ''boom'')"
    by (simp add: w_def pipeline_defs string_defs stub_defs)
  have i: "id' email_003 = ''003''" "calls w = []"
    by (simp_all add: email_003_def w_def start_def)
  show ?thesis
    using h1 h2 responder_failure_keeps_success[OF h1 h2]
    by (simp add: i spec_action_valid flip: w_def)
qed

text \<open>
  C4: for every email whose classification call returns a string that, trimmed and
  lowercased, is one of the five valid categories, the result has \<^verbatim>\<open>success\<close> true and
  \<^verbatim>\<open>classification\<close> equal to that trimmed, lowercased value.
\<close>

theorem valid_classification_success:
  assumes "fst (client P (provider w) (classify_request P e)) = Inr (Some t # rest)"
    and "lower (strip t) \<in> valid_categories"
  shows "success (fst (process_email P e w))
     \<and> classification (fst (process_email P e w)) = Some (lower (strip t))"
proof -
  have "fst (classify_email P e w) = Some (lower (strip t))"
    using assms by (simp add: classify_email_fst classify_try_text)
  then show ?thesis by (simp add: process_email_cases)
qed

text \<open>
  C4 at the fourth sample email, with an answer in mixed case between blanks.
\<close>

theorem valid_classification_success_witness:
  "fst (client scripted_processor
          (provider (start [Inr [Some ''  Support_Request ''], Inr [Some ''Ticket opened.'']]))
          (classify_request scripted_processor email_004)) =
       Inr [Some ''  Support_Request '']
   \<and> lower (strip ''  Support_Request '') = ''support_request''
   \<and> ''support_request'' \<in> valid_categories
   \<and> success (fst (process_email scripted_processor email_004
         (start [Inr [Some ''  Support_Request ''], Inr [Some ''Ticket opened.'']])))
   \<and> classification (fst (process_email scripted_processor email_004
         (start [Inr [Some ''  Support_Request ''], Inr [Some ''Ticket opened.'']]))) =
       Some ''support_request''"
proof -
  define w where
    "w = start [Inr [Some ''  Support_Request ''], Inr [Some ''Ticket opened.''] :: exn + completion]"
  have h1: "fst (client scripted_processor (provider w) (classify_request scripted_processor email_004)) =
       Inr (Some ''  Support_Request '' # [])"
    by (simp add: w_def stub_defs)
  have n: "lower (strip ''  Support_Request '') = ''support_request''"
    by (simp add: lower_def lower_char_def strip_def isspace_def char_of_eq_iff)
  have h2: "lower (strip ''  Support_Request '') \<in> valid_categories"
    unfolding n by (simp add: valid_categories_def)
  show ?thesis
    using h1 h2 valid_classification_success[OF h1 h2]
    by (simp add: n flip: w_def)
qed


text \<open>
  C5: for any category, looking its handler up and running it on an email calls exactly one
  mock service function, once: the one the specification's table gives for the category,
  with the email's id and the text the handler returns. The same holds of
  \<^verbatim>\<open>process_email\<close> for an email classified with that category, where the payload is
  what the result stores in \<^verbatim>\<open>response_sent\<close>.
\<close>

theorem dispatcher_one_action:
  assumes "c \<in> valid_categories"
  shows "(\<exists>a. spec_action c (id' e) (fst (call_handler (get_handler c) P e w)) = Some a
            \<and> calls (snd (call_handler (get_handler c) P e w)) = calls w @ [a])
     \<and> (fst (classify_email P e w) = Some c \<longrightarrow>
          (\<exists>a payload. spec_action c (id' e) payload = Some a
             \<and> calls (snd (process_email P e w)) = calls w @ [a]
             \<and> response_sent (fst (process_email P e w)) = to_pyval payload))"
proof -
  have some: "\<exists>a. spec_action c i p = Some a" for i p
    using assms unfolding valid_categories_iff
    by (elim disjE) (simp_all add: spec_action_valid)
  have split: "map Some xs = map Some ys @ [Some a] \<Longrightarrow> xs = ys @ [a]" for xs ys :: "mock_call list" and a
    by (auto simp: map_eq_append_conv)
  have "map Some (calls (snd (call_handler (get_handler c) P e w))) =
      map Some (calls w) @ [spec_action c (id' e) (fst (call_handler (get_handler c) P e w))]"
    using assms by (simp add: dispatch_calls dispatch_fst)
  then have first: "\<exists>a. spec_action c (id' e) (fst (call_handler (get_handler c) P e w)) = Some a
      \<and> calls (snd (call_handler (get_handler c) P e w)) = calls w @ [a]"
    using some[of "id' e" "fst (call_handler (get_handler c) P e w)"] split by auto
  have second: "\<exists>a payload. spec_action c (id' e) payload = Some a
      \<and> calls (snd (process_email P e w)) = calls w @ [a]
      \<and> response_sent (fst (process_email P e w)) = to_pyval payload"
    if cl: "fst (classify_email P e w) = Some c"
  proof -
    define payload where "payload = fst (generate_response P e c (snd (classify_email P e w)))"
    obtain a where a: "spec_action c (id' e) payload = Some a"
      using some by blast
    have "map Some (calls (snd (process_email P e w))) = map Some (calls w) @ [Some a]"
      using process_email_calls_success[OF cl] a by (simp add: payload_def)
    then have "calls (snd (process_email P e w)) = calls w @ [a]"
      by (rule split)
    moreover have "response_sent (fst (process_email P e w)) = to_pyval payload"
      using cl by (simp add: process_email_cases payload_def)
    ultimately show ?thesis using a by blast
  qed
  show ?thesis using first second by blast
qed

text \<open>
  C5 at the fourth sample email and the category \<^verbatim>\<open>support_request\<close>: the one call is
  \<^verbatim>\<open>create_support_ticket\<close>.
\<close>

theorem dispatcher_one_action_witness:
  "''support_request'' \<in> valid_categories
   \<and> calls (snd (call_handler (get_handler ''support_request'') scripted_processor email_004
         (start [Inr [Some ''Ticket opened.'']]))) =
       [CreateSupportTicket ''004'' (Some ''Ticket opened.'')]
   \<and> fst (classify_email scripted_processor email_004
         (start [Inr [Some ''support_request''], Inr [Some ''Ticket opened.'']])) =
       Some ''support_request''
   \<and> calls (snd (process_email scripted_processor email_004
         (start [Inr [Some ''support_request''], Inr [Some ''Ticket opened.'']]))) =
       [CreateSupportTicket ''004'' (Some ''Ticket opened.'')]"
proof -
  define w1 where "w1 = start [Inr [Some ''Ticket opened.''] :: exn + completion]"
  define w2 where
    "w2 = start [Inr [Some ''support_request''], Inr [Some ''Ticket opened.''] :: exn + completion]"
  have v: "''support_request'' \<in> valid_categories"
    by (simp add: valid_categories_def)
  have h: "fst (classify_email scripted_processor email_004 w2) = Some ''support_request''"
    by (simp add: w2_def pipeline_defs string_defs stub_defs)
  have r1: "fst (call_handler (get_handler ''support_request'') scripted_processor email_004 w1) =
      Some ''Ticket opened.''"
    by (simp add: w1_def pipeline_defs stub_defs)
  have r2: "response_sent (fst (process_email scripted_processor email_004 w2)) =
      PyStr ''Ticket opened.''"
    by (simp add: w2_def pipeline_defs string_defs stub_defs)
  have i: "id' email_004 = ''004''" "calls w1 = []" "calls w2 = []"
    by (simp_all add: email_004_def w1_def w2_def start_def)
  have a1: "calls (snd (call_handler (get_handler ''support_request'') scripted_processor
      email_004 w1)) = [CreateSupportTicket ''004'' (Some ''Ticket opened.'')]"
    using dispatcher_one_action[OF v, of email_004 scripted_processor w1]
    by (simp add: i r1 spec_action_valid)
  have a2: "calls (snd (process_email scripted_processor email_004 w2)) =
      [CreateSupportTicket ''004'' (Some ''Ticket opened.'')]"
    using dispatcher_one_action[OF v, of email_004 scripted_processor w2] h
    by (auto simp: i r2 spec_action_valid to_pyval_def split: option.splits)
  show ?thesis
    using v h a1 a2 by (simp flip: w1_def w2_def)
qed

text \<open>
  C6: any classification value that is none of \<^verbatim>\<open>complaint\<close>, \<^verbatim>\<open>inquiry\<close>,
  \<^verbatim>\<open>feedback\<close> and \<^verbatim>\<open>support_request\<close>, be it \<^verbatim>\<open>other\<close> or an unexpected value, is
  routed by the handler lookup to the handler of \<^verbatim>\<open>other\<close>.
\<close>

theorem default_handler:
  assumes "c \<notin> {''complaint'', ''inquiry'', ''feedback'', ''support_request''}"
  shows "get_handler c = get_handler ''other'' \<and> get_handler c = Handle_other"
  using assms by (simp add: get_handler_def response_handlers_def)

text \<open>
  C6 at the unexpected value \<^verbatim>\<open>spam\<close>.
\<close>

theorem default_handler_witness:
  "''spam'' \<notin> {''complaint'', ''inquiry'', ''feedback'', ''support_request''}
   \<and> get_handler ''spam'' = get_handler ''other'' \<and> get_handler ''spam'' = Handle_other"
proof -
  have h: "''spam'' \<notin> {''complaint'', ''inquiry'', ''feedback'', ''support_request''}"
    by simp
  show ?thesis using h default_handler[OF h] by (simp add: get_handler_valid)
qed


text \<open>
  C7: for every email and every error raised by the provider call, \<^verbatim>\<open>classify_email\<close>
  and \<^verbatim>\<open>generate_response\<close> each return the absent result, having sent their one request
  and logged one error line that carries the text of the error. Neither has an outcome in
  which the error reaches the caller.
\<close>

theorem provider_errors_caught:
  "(fst (client P (provider w) (classify_request P e)) = Inl ex \<longrightarrow>
      classify_email P e w =
        (None,
         logger_error (''Error with the LLM provider: '' @ str ex)
           (w\<lparr>provider := snd (client P (provider w) (classify_request P e)),
              requests := requests w @ [classify_request P e]\<rparr>)))
   \<and> (fst (client P (provider w) (response_request e c)) = Inl ex' \<longrightarrow>
      generate_response P e c w =
        (None,
         logger_error (''Error with the LLM provider: '' @ str ex')
           (w\<lparr>provider := snd (client P (provider w) (response_request e c)),
              requests := requests w @ [response_request e c]\<rparr>)))"
  by (simp add: classify_email_def generate_response_def chat_completions_create_def
      classify_try_raised response_try_raised split_beta)

text \<open>
  C7 at the fifth sample email with a provider that raises.
\<close>

theorem provider_errors_caught_witness:
  "fst (client scripted_processor (provider (start [Inl (Exception ''rate limit'')]))
          (classify_request scripted_processor email_005)) = Inl (Exception ''rate limit'')
   \<and> fst (classify_email scripted_processor email_005 (start [Inl (Exception ''rate limit'')])) = None
   \<and> logger (snd (classify_email scripted_processor email_005
         (start [Inl (Exception ''rate limit'')]))) =
       [(ERROR, ''Error with the LLM provider: rate limit'')]
   \<and> fst (client scripted_processor (provider (start [Inl (Exception ''rate limit'')]))
          (response_request email_005 ''other'')) = Inl (Exception ''rate limit'')
   \<and> fst (generate_response scripted_processor email_005 ''other''
         (start [Inl (Exception ''rate limit'')])) = None
   \<and> logger (snd (generate_response scripted_processor email_005 ''other''
         (start [Inl (Exception ''rate limit'')]))) =
       [(ERROR, ''Error with the LLM provider: rate limit'')]"
proof -
  define w where "w = start [Inl (Exception ''rate limit'') :: exn + completion]"
  have h: "fst (client scripted_processor (provider w) rq) = Inl (Exception ''rate limit'')" for rq
    by (simp add: w_def stub_defs)
  have l: "logger w = []"
    by (simp add: w_def start_def)
  show ?thesis
    using h provider_errors_caught[of scripted_processor w email_005 "Exception ''rate limit''"
        "''other''" "Exception ''rate limit''"]
    unfolding w_def[symmetric]
    by (simp add: logger_error_def l)
qed

text \<open>
  C8: a stub is deterministic when its answer depends on the request alone, or when it is
  in the same state of its own at the start of both runs. With such a stub, two runs of the
  orchestrator over the same list of emails give the same list of results, whatever else
  differs between the states in which the two runs start: the requests sent, the log and
  the mock calls made so far. So does the demonstration over the sample emails.
\<close>

theorem rerun_identical:
  "(stateless P \<or> provider w = provider w' \<longrightarrow>
      fst (process_emails P es w) = fst (process_emails P es w'))
   \<and> (stateless P \<or> provider w = provider w' \<longrightarrow>
      fst (run_demonstration P w) = fst (run_demonstration P w'))"
proof -
  have a: "fst (process_emails P xs v) = fst (process_emails P xs v')"
    if "stateless P" for xs v v'
  proof (induction xs arbitrary: v v')
    case Nil
    show ?case by simp
  next
    case (Cons x xs)
    define m where "m = [CHR 0x0A] @ ''Processing email '' @ id' x @ ''...''"
    have head: "fst (process_email P x (logger_info m v)) =
        fst (process_email P x (logger_info m v'))"
      using that by (rule stateless_process_email)
    have rest: "fst (process_emails P xs (snd (process_email P x (logger_info m v)))) =
        fst (process_emails P xs (snd (process_email P x (logger_info m v'))))"
      by (rule Cons.IH)
    show ?case
      unfolding process_emails_Cons_fst m_def[symmetric] by (simp only: head rest)
  qed
  have b: "provider v = provider v' \<Longrightarrow>
      fst (process_emails P xs v) = fst (process_emails P xs v')" for xs v v'
  proof (induction xs arbitrary: v v')
    case Nil
    show ?case by simp
  next
    case (Cons x xs)
    define m where "m = [CHR 0x0A] @ ''Processing email '' @ id' x @ ''...''"
    have "provider (logger_info m v) = provider (logger_info m v')"
      using Cons.prems by (simp add: logger_info_def)
    then have step: "fst (process_email P x (logger_info m v)) =
        fst (process_email P x (logger_info m v'))
        \<and> provider (snd (process_email P x (logger_info m v))) =
          provider (snd (process_email P x (logger_info m v')))"
      by (rule same_provider_process_email)
    then have rest: "fst (process_emails P xs (snd (process_email P x (logger_info m v)))) =
        fst (process_emails P xs (snd (process_email P x (logger_info m v'))))"
      using Cons.IH by blast
    show ?case
      unfolding process_emails_Cons_fst m_def[symmetric] using step rest by (simp only:)
  qed
  show ?thesis
    unfolding run_demonstration_def
    using a[of es w w'] b[of w w' es] a[of sample_emails w w'] b[of w w' sample_emails]
    by blast
qed

text \<open>
  C8 with the keyword stub, which counts its calls: the demonstration run a second time,
  from the state the first run left, gives the results of the first run. And with the
  scripted stub: a run after an earlier run's log and calls, with the script at its start
  again, gives the results of a run from the empty state.
\<close>

theorem rerun_identical_witness:
  "stateless keyword_processor
   \<and> fst (run_demonstration keyword_processor
            (snd (run_demonstration keyword_processor (start 0)))) =
       fst (run_demonstration keyword_processor (start 0))
   \<and> fst (process_emails keyword_processor [email_002] (start 0)) =
       [\<lparr>email_id = ''002'', success = True, classification = Some ''inquiry'',
         response_sent = PyStr ''Thank you for your message.''\<rparr>]
   \<and> provider (start [Inr [Some ''other''], Inr [None]]
         \<lparr>logger := [(INFO, ''an earlier run'')], calls := [LogCustomerFeedback ''003'' None]\<rparr>) =
       provider (start [Inr [Some ''other''], Inr [None]])
   \<and> fst (process_emails scripted_processor [email_005]
         (start [Inr [Some ''other''], Inr [None]]
            \<lparr>logger := [(INFO, ''an earlier run'')], calls := [LogCustomerFeedback ''003'' None]\<rparr>)) =
       fst (process_emails scripted_processor [email_005] (start [Inr [Some ''other''], Inr [None]]))"
proof -
  define w where "w = start [Inr [Some ''other''], Inr [None] :: exn + completion]"
  define w' where
    "w' = w\<lparr>logger := [(INFO, ''an earlier run'')], calls := [LogCustomerFeedback ''003'' None]\<rparr>"
  have s: "stateless keyword_processor"
    by (simp add: stateless_def keyword_processor_def keyword_stub_def split: list.splits)
  have r: "fst (process_emails keyword_processor [email_002] (start 0)) =
       [\<lparr>email_id = ''002'', success = True, classification = Some ''inquiry'',
         response_sent = PyStr ''Thank you for your message.''\<rparr>]"
    by (simp add: pipeline_defs keyword_inquiry valid_categories_def keyword_processor_def
        keyword_stub_def start_def classify_prompt_def response_prompt_def email_002_def)
  have p: "provider w' = provider w"
    by (simp add: w'_def)
  show ?thesis
    using s r p
      rerun_identical[of keyword_processor "snd (run_demonstration keyword_processor (start 0))"
        "start 0" sample_emails]
      rerun_identical[of scripted_processor w' w "[email_005]"]
    unfolding w'_def w_def
    by simp
qed

text \<open>
  C9: \<^verbatim>\<open>create_urgent_ticket\<close> is never called. No handler, no run of \<^verbatim>\<open>process_email\<close>,
  no run of the loop over any list of emails and no run of the demonstration adds a call of
  it to the calls made before.
\<close>

theorem create_urgent_ticket_never_called:
  "filter is_create_urgent_ticket (calls (snd (call_handler h P e w))) =
     filter is_create_urgent_ticket (calls w)
   \<and> filter is_create_urgent_ticket (calls (snd (process_email P e w))) =
     filter is_create_urgent_ticket (calls w)
   \<and> filter is_create_urgent_ticket (calls (snd (process_emails P es w))) =
     filter is_create_urgent_ticket (calls w)
   \<and> filter is_create_urgent_ticket (calls (snd (run_demonstration P w))) =
     filter is_create_urgent_ticket (calls w)"
  by (simp add: call_handler_urgent process_email_urgent process_emails_urgent
      run_demonstration_def)

text \<open>
  C10: when the classification is absent, \<^verbatim>\<open>process_email\<close> sets \<^verbatim>\<open>response_sent\<close> to
  the boolean \<^verbatim>\<open>False\<close>; when the classification succeeds and the responder returns
  nothing, \<^verbatim>\<open>response_sent\<close> is \<^verbatim>\<open>None\<close>. The field alone tells the two apart: it is
  \<^verbatim>\<open>False\<close> exactly when the classification is absent.
\<close>

theorem response_sent_sentinels:
  "(fst (classify_email P e w) = None \<longrightarrow>
      response_sent (fst (process_email P e w)) = PyBool False)
   \<and> (fst (classify_email P e w) = Some c
        \<and> fst (generate_response P e c (snd (classify_email P e w))) = None \<longrightarrow>
      response_sent (fst (process_email P e w)) = PyNone)
   \<and> (response_sent (fst (process_email P e w)) = PyBool False \<longleftrightarrow>
        classification (fst (process_email P e w)) = None)"
  by (simp add: process_email_cases to_pyval_def split: option.splits)

text \<open>
  C10 at the first sample email: once with an answer that is no category, once with the
  answer \<^verbatim>\<open>complaint\<close> and a responder that raises.
\<close>

theorem response_sent_sentinels_witness:
  "fst (classify_email scripted_processor email_001 (start [Inr [Some ''refund'']])) = None
   \<and> response_sent (fst (process_email scripted_processor email_001
         (start [Inr [Some ''refund'']]))) = PyBool False
   \<and> fst (classify_email scripted_processor email_001
         (start [Inr [Some ''complaint''], Inl (Exception ''timeout'')])) = Some ''complaint''
   \<and> fst (generate_response scripted_processor email_001 ''complaint''
         (snd (classify_email scripted_processor email_001
            (start [Inr [Some ''complaint''], Inl (Exception ''timeout'')])))) = None
   \<and> response_sent (fst (process_email scripted_processor email_001
         (start [Inr [Some ''complaint''], Inl (Exception ''timeout'')]))) = PyNone"
proof -
  define w1 where "w1 = start [Inr [Some ''refund''] :: exn + completion]"
  define w2 where
    "w2 = start [Inr [Some ''complaint''], Inl (Exception ''timeout'') :: exn + completion]"
  have h1: "fst (classify_email scripted_processor email_001 w1) = None"
    by (simp add: w1_def pipeline_defs string_defs stub_defs)
  have h2: "fst (classify_email scripted_processor email_001 w2) = Some ''complaint''"
    by (simp add: w2_def pipeline_defs string_defs stub_defs)
  have h3: "fst (generate_response scripted_processor email_001 ''complaint''
      (snd (classify_email scripted_processor email_001 w2))) = None"
    by (simp add: w2_def pipeline_defs string_defs stub_defs)
  show ?thesis
    using h1 h2 h3
      response_sent_sentinels[of scripted_processor email_001 w1 "''complaint''"]
      response_sent_sentinels[of scripted_processor email_001 w2 "''complaint''"]
    unfolding w1_def[symmetric] w2_def[symmetric]
    by simp
qed

end
